theory Spec2Isabelle
  imports Complex_Main "HOL-Library.Word"
begin

section \<open>JavaScript values and external collaborators\<close>

text \<open>
  A JavaScript number is a double: not-a-number, one of the two infinities, or a finite
  value, which is a rational number (the two zeros are not told apart: no operation of
  the sources does). Comparisons on these values are exact. An integer of magnitude at
  most \<open>2\<^sup>5\<^sup>3\<close> is a double, and sums and products that are such integers are
  computed exactly; every other result is rounded by the host.
\<close>

datatype jsnum = Fin rat | NaN | PosInf | NegInf

definition safe_int :: "rat \<Rightarrow> bool" where
  "safe_int q = (q = of_int \<lfloor>q\<rfloor> \<and> \<bar>q\<bar> \<le> 2 ^ 53)"

fun num_gt_zero :: "jsnum \<Rightarrow> bool" where
  "num_gt_zero (Fin q) = (0 < q)"
| "num_gt_zero NaN = False"
| "num_gt_zero PosInf = True"
| "num_gt_zero NegInf = False"

fun num_lt_zero :: "jsnum \<Rightarrow> bool" where
  "num_lt_zero (Fin q) = (q < 0)"
| "num_lt_zero NaN = False"
| "num_lt_zero PosInf = False"
| "num_lt_zero NegInf = True"

text \<open>
  The library is JavaScript: arguments are dynamically typed. The values that the
  modelled functions receive or store are collected in one datatype. A \<open>Date\<close> and an
  \<open>UnsignedHyper\<close> are objects, the first mutable and therefore a reference into the
  store.
\<close>

datatype jsval =
    JUndefined
  | JNull
  | JNum jsnum
  | JStr string
  | JDate nat
  | JUHyper "64 word"

datatype error =
    InvalidIdentity
  | InvalidSequenceFormat
  | InvalidAssetCode
  | MissingIssuer
  | InvalidIssuer
  | InvalidAssetType
  | MissingSourceAccount
  | TimeBoundsConflict
  | NegativeTimeout
  | MissingTimeBounds
  | TypeError
  | InvalidPublicKey
  | InvalidHyperString

text \<open>
  The sources throw \<open>Error\<close> with a message; the constructors name the failures as the
  specification does. \<open>InvalidIdentity\<close> is \<open>accountId is invalid\<close>,
  \<open>InvalidSequenceFormat\<close> is \<open>sequence must be of type string\<close>, \<open>InvalidAssetCode\<close>,
  \<open>MissingIssuer\<close> and \<open>InvalidIssuer\<close> are the three errors of the \<open>Asset\<close>
  constructor in its order, \<open>MissingSourceAccount\<close> is the constructor error of the
  builder, \<open>TimeBoundsConflict\<close> and \<open>NegativeTimeout\<close> are the two errors of
  \<open>setTimeout\<close> in its order, and \<open>MissingTimeBounds\<close> is the error of \<open>build\<close>. The
  last three are raised by the runtime and by the collaborators: a property read on
  \<open>undefined\<close> or \<open>null\<close> or a call on something that is no object of the expected
  class, a string that is no identity, and a string that is no decimal numeral.
\<close>

text \<open>\<open>lodash/isString\<close>.\<close>

fun isString :: "jsval \<Rightarrow> bool" where
  "isString (JStr s) = True"
| "isString v = False"

text \<open>JavaScript truthiness, as used by \<open>!issuer\<close> and \<open>issuer && ...\<close>.\<close>

fun truthy :: "jsval \<Rightarrow> bool" where
  "truthy JUndefined = False"
| "truthy JNull = False"
| "truthy (JNum n) = (n \<noteq> Fin 0 \<and> n \<noteq> NaN)"
| "truthy (JStr s) = (s \<noteq> [])"
| "truthy (JDate d) = True"
| "truthy (JUHyper w) = True"

subsection \<open>Decimal numerals\<close>

definition is_digit :: "char \<Rightarrow> bool" where
  "is_digit c = (48 \<le> (of_char c :: nat) \<and> (of_char c :: nat) \<le> 57)"

definition digit_val :: "char \<Rightarrow> nat" where
  "digit_val c = of_char c - 48"

definition digit_char :: "nat \<Rightarrow> char" where
  "digit_char d = ''0123456789'' ! d"

definition parse_nat :: "string \<Rightarrow> nat" where
  "parse_nat s = foldl (\<lambda>acc c. 10 * acc + digit_val c) 0 s"

function show_nat :: "nat \<Rightarrow> string" where
  "show_nat n = (if n < 10 then [digit_char n] else show_nat (n div 10) @ [digit_char (n mod 10)])"
  by pat_completeness auto
termination
  by (relation "measure id") auto

declare show_nat.simps [simp del]

text \<open>The regular expression \<open>/^\<hyphen>?\<backslash>d+$/\<close>: an optional minus sign and at least one digit.\<close>

definition is_nat_numeral :: "string \<Rightarrow> bool" where
  "is_nat_numeral s = (s \<noteq> [] \<and> list_all is_digit s)"

fun is_int_numeral :: "string \<Rightarrow> bool" where
  "is_int_numeral [] = False"
| "is_int_numeral (c # cs) = (if c = CHR ''-'' then is_nat_numeral cs else is_nat_numeral (c # cs))"

fun parse_int :: "string \<Rightarrow> int" where
  "parse_int [] = 0"
| "parse_int (c # cs) = (if c = CHR ''-'' then - int (parse_nat cs) else int (parse_nat (c # cs)))"

definition show_int :: "int \<Rightarrow> string" where
  "show_int i = (if i < 0 then CHR ''-'' # show_nat (nat (- i)) else show_nat (nat i))"

subsection \<open>The host's number conversions\<close>

text \<open>
  What the JavaScript host computes outside the exact cases is a parameter: the
  rounding of a sum or product that is no integer of magnitude at most \<open>2\<^sup>5\<^sup>3\<close>, the
  string of a finite number that is no such integer, and the number a string converts
  to when the string is not a plain decimal numeral of such an integer. Every statement
  below holds for every host.
\<close>

record Host =
  host_round :: "rat \<Rightarrow> jsnum"
  host_toString :: "rat \<Rightarrow> string"
  host_toNumber :: "string \<Rightarrow> jsnum"

text \<open>The binary \<open>+\<close> and \<open>*\<close> on numbers.\<close>

definition js_add :: "Host \<Rightarrow> jsnum \<Rightarrow> jsnum \<Rightarrow> jsnum" where
  "js_add H a b =
     (case (a, b) of
        (Fin x, Fin y) \<Rightarrow> if safe_int (x + y) then Fin (x + y) else host_round H (x + y)
      | _ \<Rightarrow>
          if a = NaN \<or> b = NaN then NaN
          else if (a = PosInf \<and> b = NegInf) \<or> (a = NegInf \<and> b = PosInf) then NaN
          else if a = PosInf \<or> b = PosInf then PosInf
          else NegInf)"

definition js_mul :: "Host \<Rightarrow> jsnum \<Rightarrow> jsnum \<Rightarrow> jsnum" where
  "js_mul H a b =
     (case (a, b) of
        (Fin x, Fin y) \<Rightarrow> if safe_int (x * y) then Fin (x * y) else host_round H (x * y)
      | _ \<Rightarrow>
          if a = NaN \<or> b = NaN \<or> a = Fin 0 \<or> b = Fin 0 then NaN
          else if num_gt_zero a = num_gt_zero b then PosInf
          else NegInf)"

text \<open>\<open>Number.prototype.toString\<close>: an integer of magnitude at most \<open>2\<^sup>5\<^sup>3\<close> prints as
  its decimal numeral.\<close>

fun number_toString :: "Host \<Rightarrow> jsnum \<Rightarrow> string" where
  "number_toString H (Fin q) = (if safe_int q then show_int \<lfloor>q\<rfloor> else host_toString H q)"
| "number_toString H NaN = ''NaN''"
| "number_toString H PosInf = ''Infinity''"
| "number_toString H NegInf = ''-Infinity''"

text \<open>The conversion of a string to a number, as the comparison \<open>s > 0\<close> performs it: a
  string of decimal digits that denotes an integer of at most \<open>2\<^sup>5\<^sup>3\<close> is that integer.\<close>

definition string_toNumber :: "Host \<Rightarrow> string \<Rightarrow> jsnum" where
  "string_toNumber H s =
     (if is_nat_numeral s \<and> parse_nat s \<le> 2 ^ 53 then Fin (of_nat (parse_nat s))
      else host_toNumber H s)"

text \<open>
  Strict equality \<open>===\<close> on the values of the datatype: equality of primitive values,
  except that not-a-number equals nothing, and identity of references. The sources apply
  it to an issuer, which the constructor lets be an absent value, a number or a string
  only, and to a \<open>maxTime\<close> against the number 0.
\<close>

definition strict_equal :: "jsval \<Rightarrow> jsval \<Rightarrow> bool" where
  "strict_equal v w = (v = w \<and> v \<noteq> JNum NaN)"

subsection \<open>Arbitrary-precision numbers\<close>

text \<open>
  Modelled from the spec: the arbitrary-precision arithmetic collaborator
  (\<open>bignumber.js\<close>, imported by the sources and not part of them). A value is an
  integer of unbounded size or not-a-number; a string is read as an optionally signed
  decimal numeral, and a value prints as its decimal numeral without leading zeros.
  Strings of any other shape are outside what the spec describes and are read as
  not-a-number.
\<close>

datatype BigNumber = BN int | BN_NaN

definition BigNumber_new :: "string \<Rightarrow> BigNumber" where
  "BigNumber_new s = (if is_int_numeral s then BN (parse_int s) else BN_NaN)"

fun BigNumber_add :: "BigNumber \<Rightarrow> int \<Rightarrow> BigNumber" where
  "BigNumber_add (BN n) k = BN (n + k)"
| "BigNumber_add BN_NaN k = BN_NaN"

fun BigNumber_toString :: "BigNumber \<Rightarrow> string" where
  "BigNumber_toString (BN n) = show_int n"
| "BigNumber_toString BN_NaN = ''NaN''"

subsection \<open>Identity codec\<close>

text \<open>
  Modelled from the spec: the identity codec (\<open>./strkey\<close> and \<open>./keypair\<close>, imported
  by the sources and not part of them) with its three functions: the validity check
  of a checksummed identity string, and the conversions between such a string and the
  raw key bytes. The codec is a parameter of every function that consults it.
\<close>

record StrKey =
  isValidEd25519PublicKey :: "string \<Rightarrow> bool"
  encodeEd25519PublicKey :: "8 word list \<Rightarrow> string"
  decodeEd25519PublicKey :: "string \<Rightarrow> 8 word list option"

text \<open>
  What the spec's description of the codec (checksummed string \<open>\<leftrightarrow>\<close> raw key bytes)
  amounts to: a string that passes the validity check decodes to raw key bytes, and
  these encode to the same string. It is a hypothesis wherever a proof needs it.
\<close>

definition codec_ok :: "StrKey \<Rightarrow> bool" where
  "codec_ok K =
     (\<forall>s. isValidEd25519PublicKey K s \<longrightarrow>
          (\<exists>raw. decodeEd25519PublicKey K s = Some raw \<and> encodeEd25519PublicKey K raw = s))"

text \<open>\<open>Keypair.fromPublicKey(s).xdrAccountId()\<close>: the raw key, or an error.\<close>

definition xdrAccountId :: "StrKey \<Rightarrow> string \<Rightarrow> error + 8 word list" where
  "xdrAccountId K s =
     (case decodeEd25519PublicKey K s of None \<Rightarrow> Inl InvalidPublicKey | Some raw \<Rightarrow> Inr raw)"

section \<open>Account\<close>

record Account =
  accountId_field :: string
  sequence :: BigNumber

definition Account_new :: "StrKey \<Rightarrow> jsval \<Rightarrow> jsval \<Rightarrow> error + Account" where
  "Account_new K accountId sequence_arg =
     (case accountId of
        JStr aid \<Rightarrow>
          if \<not> isValidEd25519PublicKey K aid then Inl InvalidIdentity
          else (case sequence_arg of
                  JStr s \<Rightarrow> Inr \<lparr>accountId_field = aid, sequence = BigNumber_new s\<rparr>
                | _ \<Rightarrow> Inl InvalidSequenceFormat)
      | _ \<Rightarrow> Inl InvalidIdentity)"

definition accountId :: "Account \<Rightarrow> string" where
  "accountId a = accountId_field a"

definition sequenceNumber :: "Account \<Rightarrow> string" where
  "sequenceNumber a = BigNumber_toString (sequence a)"

definition incrementSequenceNumber :: "Account \<Rightarrow> Account" where
  "incrementSequenceNumber a = a\<lparr>sequence := BigNumber_add (sequence a) 1\<rparr>"

section \<open>Asset\<close>

record Asset =
  code :: string
  issuer :: jsval

text \<open>The regular expression \<open>/^[a-zA-Z0-9]{1,12}$/\<close>.\<close>

definition is_alnum :: "char \<Rightarrow> bool" where
  "is_alnum c =
     (let n = (of_char c :: nat)
      in (48 \<le> n \<and> n \<le> 57) \<or> (65 \<le> n \<and> n \<le> 90) \<or> (97 \<le> n \<and> n \<le> 122))"

definition valid_code :: "string \<Rightarrow> bool" where
  "valid_code s = (1 \<le> length s \<and> length s \<le> 12 \<and> list_all is_alnum s)"

text \<open>\<open>String.prototype.toLowerCase\<close> on the characters that pass the code check.\<close>

definition lower_char :: "char \<Rightarrow> char" where
  "lower_char c =
     (case map_of (zip ''ABCDEFGHIJKLMNOPQRSTUVWXYZ'' ''abcdefghijklmnopqrstuvwxyz'') c of
        Some l \<Rightarrow> l
      | None \<Rightarrow> c)"

definition toLowerCase :: "string \<Rightarrow> string" where
  "toLowerCase s = map lower_char s"

text \<open>\<open>StrKey.isValidEd25519PublicKey\<close> on an argument of any type: only a string can pass.\<close>

fun isValidKey :: "StrKey \<Rightarrow> jsval \<Rightarrow> bool" where
  "isValidKey K (JStr s) = isValidEd25519PublicKey K s"
| "isValidKey K v = False"

definition Asset_new :: "StrKey \<Rightarrow> string \<Rightarrow> jsval \<Rightarrow> error + Asset" where
  "Asset_new K c i =
     (if \<not> valid_code c then Inl InvalidAssetCode
      else if toLowerCase c \<noteq> ''xlm'' \<and> \<not> truthy i then Inl MissingIssuer
      else if truthy i \<and> \<not> isValidKey K i then Inl InvalidIssuer
      else Inr \<lparr>code = c, issuer = i\<rparr>)"

text \<open>\<open>Asset.native()\<close> is \<open>new Asset('XLM')\<close>: the issuer argument is omitted.\<close>

definition native :: "StrKey \<Rightarrow> error + Asset" where
  "native K = Asset_new K ''XLM'' JUndefined"

definition isNative :: "Asset \<Rightarrow> bool" where
  "isNative a = (\<not> truthy (issuer a))"

definition getCode :: "Asset \<Rightarrow> string" where
  "getCode a = code a"

definition getIssuer :: "Asset \<Rightarrow> jsval" where
  "getIssuer a = issuer a"

text \<open>\<open>equals\<close> compares the codes, which are strings, and the issuers with \<open>===\<close>.\<close>

definition equals :: "Asset \<Rightarrow> Asset \<Rightarrow> bool" where
  "equals a b = (code a = getCode b \<and> strict_equal (issuer a) (getIssuer b))"

definition getAssetType :: "Asset \<Rightarrow> string option" where
  "getAssetType a =
     (if isNative a then Some ''native''
      else if 1 \<le> length (code a) \<and> length (code a) \<le> 4 then Some ''credit_alphanum4''
      else if 5 \<le> length (code a) \<and> length (code a) \<le> 12 then Some ''credit_alphanum12''
      else None)"

subsection \<open>Canonical form\<close>

text \<open>
  Modelled from the spec: the asset union of the generated XDR definitions
  (\<open>./generated/stellar-xdr_generated\<close>, not among the sources): the native variant
  without payload, and the two credit variants with a code slot and the issuer's raw
  key bytes.
\<close>

datatype XdrAsset =
    AssetTypeNative
  | AssetTypeCreditAlphanum4 string "8 word list"
  | AssetTypeCreditAlphanum12 string "8 word list"

text \<open>\<open>lodash/padEnd\<close> and \<open>lodash/trimEnd\<close> with a one-character string.\<close>

definition padEnd :: "string \<Rightarrow> nat \<Rightarrow> char \<Rightarrow> string" where
  "padEnd s n c = s @ replicate (n - length s) c"

definition trimEnd :: "string \<Rightarrow> char \<Rightarrow> string" where
  "trimEnd s c = rev (dropWhile (\<lambda>x. x = c) (rev s))"

definition NUL :: char where
  "NUL = CHR 0x00"

text \<open>\<open>Keypair.fromPublicKey(this.issuer)\<close> on the issuer field.\<close>

fun issuerAccountId :: "StrKey \<Rightarrow> jsval \<Rightarrow> error + 8 word list" where
  "issuerAccountId K (JStr s) = xdrAccountId K s"
| "issuerAccountId K v = Inl InvalidPublicKey"

definition toXDRObject :: "StrKey \<Rightarrow> Asset \<Rightarrow> error + XdrAsset" where
  "toXDRObject K a =
     (if isNative a then Inr AssetTypeNative
      else
        let padLength = (if length (code a) \<le> 4 then 4 else 12);
            paddedCode = padEnd (code a) padLength NUL
        in case issuerAccountId K (issuer a) of
             Inl e \<Rightarrow> Inl e
           | Inr raw \<Rightarrow>
               if length (code a) \<le> 4 then Inr (AssetTypeCreditAlphanum4 paddedCode raw)
               else Inr (AssetTypeCreditAlphanum12 paddedCode raw))"

text \<open>The union has these three arms only, so the \<open>default\<close> branch of the switch in
  \<open>fromOperation\<close> has no input.\<close>

fun fromOperation :: "StrKey \<Rightarrow> XdrAsset \<Rightarrow> error + Asset" where
  "fromOperation K AssetTypeNative = native K"
| "fromOperation K (AssetTypeCreditAlphanum4 c raw) =
     Asset_new K (trimEnd c NUL) (JStr (encodeEd25519PublicKey K raw))"
| "fromOperation K (AssetTypeCreditAlphanum12 c raw) =
     Asset_new K (trimEnd c NUL) (JStr (encodeEd25519PublicKey K raw))"

section \<open>The store\<close>

text \<open>
  The builder keeps a reference to the caller's \<open>Account\<close> and builds on objects
  the caller may still hold, so objects live in a store and are named by address.
  A time-bounds object is a plain object with the properties \<open>minTime\<close> and
  \<open>maxTime\<close> (an absent property reads as \<open>undefined\<close>); its address is its index
  in the list of allocated objects, so a new object gets the next index. A \<open>Date\<close>
  holds a time value in milliseconds, or none when it is an invalid date. An address
  beyond the allocated objects is not a reference a JavaScript program can hold; the
  functions read it as no object.
\<close>

record TimeBounds =
  minTime :: jsval
  maxTime :: jsval

record Heap =
  accounts :: "nat \<rightharpoonup> Account"
  objects :: "TimeBounds list"
  dates :: "nat \<rightharpoonup> int option"

definition get_object :: "Heap \<Rightarrow> nat \<Rightarrow> TimeBounds option" where
  "get_object h r = (if r < length (objects h) then Some (objects h ! r) else None)"

definition new_object :: "Heap \<Rightarrow> TimeBounds \<Rightarrow> nat \<times> Heap" where
  "new_object h tb = (length (objects h), h\<lparr>objects := objects h @ [tb]\<rparr>)"

definition set_object :: "Heap \<Rightarrow> nat \<Rightarrow> TimeBounds \<Rightarrow> Heap" where
  "set_object h r tb = h\<lparr>objects := (objects h)[r := tb]\<rparr>"

definition Date_setTime :: "Heap \<Rightarrow> nat \<Rightarrow> int option \<Rightarrow> Heap" where
  "Date_setTime h d ms = h\<lparr>dates := (dates h)(d \<mapsto> ms)\<rparr>"

text \<open>\<open>lodash/clone\<close> of an optional plain object: a new object with the same property
  values. A property value that is a reference is copied as a reference.\<close>

definition clone :: "Heap \<Rightarrow> nat option \<Rightarrow> nat option \<times> Heap" where
  "clone h v =
     (case v of
        None \<Rightarrow> (None, h)
      | Some r \<Rightarrow>
          (case get_object h r of
             None \<Rightarrow> (None, h)
           | Some tb \<Rightarrow> (let (r', h') = new_object h tb in (Some r', h'))))"

text \<open>\<open>isValidDate\<close>: a \<open>Date\<close> object whose time value is a number.\<close>

fun isValidDate :: "Heap \<Rightarrow> jsval \<Rightarrow> bool" where
  "isValidDate h (JDate d) = (case dates h d of Some (Some ms) \<Rightarrow> True | _ \<Rightarrow> False)"
| "isValidDate h v = False"

text \<open>
  The comparison \<open>v > 0\<close> after JavaScript's conversion to a number: \<open>undefined\<close>
  becomes NaN, \<open>null\<close> becomes 0, a string the number it converts to, a \<open>Date\<close> its
  time value, an \<open>UnsignedHyper\<close> the number its decimal string denotes, which is
  positive unless the value is 0.
\<close>

fun js_gt_zero :: "Host \<Rightarrow> Heap \<Rightarrow> jsval \<Rightarrow> bool" where
  "js_gt_zero H h JUndefined = False"
| "js_gt_zero H h JNull = False"
| "js_gt_zero H h (JNum n) = num_gt_zero n"
| "js_gt_zero H h (JStr s) = num_gt_zero (string_toNumber H s)"
| "js_gt_zero H h (JDate d) = (case dates h d of Some (Some ms) \<Rightarrow> 0 < ms | _ \<Rightarrow> False)"
| "js_gt_zero H h (JUHyper w) = (0 < unat w)"

section \<open>TransactionBuilder\<close>

definition BASE_FEE :: jsnum where
  "BASE_FEE = Fin 100"

definition TimeoutInfinite :: jsnum where
  "TimeoutInfinite = Fin 0"

text \<open>Memos and operations are opaque to the builder. \<open>Memo.none()\<close> is the one memo
  the builder creates itself.\<close>

datatype 'm Memo = MemoNone | MemoOf 'm

record 'm Opts =
  opts_fee :: "jsnum option"
  opts_timebounds :: "nat option"
  opts_memo :: "'m Memo option"

record ('op, 'm) TransactionBuilder =
  source :: nat
  operations :: "'op list"
  baseFee :: jsnum
  timebounds :: "nat option"
  memo :: "'m Memo option"
  timeoutSet :: bool

definition TransactionBuilder_new ::
  "Heap \<Rightarrow> nat option \<Rightarrow> 'm Opts \<Rightarrow> error + (('op, 'm) TransactionBuilder \<times> Heap)" where
  "TransactionBuilder_new h sourceAccount opts =
     (case sourceAccount of
        None \<Rightarrow> Inl MissingSourceAccount
      | Some src \<Rightarrow>
          let (tb, h') = clone h (opts_timebounds opts)
          in Inr (\<lparr>source = src,
                   operations = [],
                   baseFee = (case opts_fee opts of None \<Rightarrow> BASE_FEE | Some f \<Rightarrow> f),
                   timebounds = tb,
                   memo = (case opts_memo opts of None \<Rightarrow> Some MemoNone | Some m \<Rightarrow> Some m),
                   timeoutSet = False\<rparr>, h'))"

definition addOperation :: "('op, 'm) TransactionBuilder \<Rightarrow> 'op \<Rightarrow> ('op, 'm) TransactionBuilder" where
  "addOperation b operation = b\<lparr>operations := operations b @ [operation]\<rparr>"

definition addMemo :: "('op, 'm) TransactionBuilder \<Rightarrow> 'm Memo option \<Rightarrow> ('op, 'm) TransactionBuilder" where
  "addMemo b m = b\<lparr>memo := m\<rparr>"

text \<open>\<open>this.timebounds != null && this.timebounds.maxTime > 0\<close>.\<close>

definition maxTime_set :: "Host \<Rightarrow> Heap \<Rightarrow> ('op, 'm) TransactionBuilder \<Rightarrow> bool" where
  "maxTime_set H h b =
     (case timebounds b of
        None \<Rightarrow> False
      | Some r \<Rightarrow> (case get_object h r of None \<Rightarrow> False | Some tb \<Rightarrow> js_gt_zero H h (maxTime tb)))"

text \<open>
  \<open>setTimeout\<close>; \<open>now\<close> is the value of \<open>Date.now()\<close> at the call, a time value: an
  integer number of milliseconds of magnitude at most \<open>8.64 \<times> 10\<^sup>1\<^sup>5\<close>, on which
  \<open>Math.floor(now / 1000)\<close> is the integer quotient.
\<close>

definition setTimeout ::
  "Host \<Rightarrow> Heap \<Rightarrow> int \<Rightarrow> ('op, 'm) TransactionBuilder \<Rightarrow> jsnum
     \<Rightarrow> error + (('op, 'm) TransactionBuilder \<times> Heap)" where
  "setTimeout H h now b timeout =
     (if maxTime_set H h b then Inl TimeBoundsConflict
      else if num_lt_zero timeout then Inl NegativeTimeout
      else if num_gt_zero timeout then
        let timeoutTimestamp = js_add H (Fin (of_int (now div 1000))) timeout;
            tb = (case timebounds b of
                    None \<Rightarrow> \<lparr>minTime = JNum (Fin 0), maxTime = JNum timeoutTimestamp\<rparr>
                  | Some r \<Rightarrow>
                      \<lparr>minTime = (case get_object h r of None \<Rightarrow> JUndefined | Some old \<Rightarrow> minTime old),
                       maxTime = JNum timeoutTimestamp\<rparr>);
            (r', h') = new_object h tb
        in Inr (b\<lparr>timeoutSet := True, timebounds := Some r'\<rparr>, h')
      else Inr (b\<lparr>timeoutSet := True\<rparr>, h))"

subsection \<open>The built transaction\<close>

text \<open>
  Modelled from the spec: the \<open>Transaction\<close> snapshot (\<open>./transaction\<close> and the
  generated XDR definitions are not among the sources): source identity as raw key
  bytes, fee, sequence number as a signed 64-bit value (the word read with \<open>sint\<close>),
  memo, optional time bounds as two unsigned 64-bit values, the operations in order,
  and the extension discriminant.
\<close>

record ('op, 'm) Transaction =
  tx_sourceAccount :: "8 word list"
  fee :: jsnum
  seqNum :: "64 word"
  tx_memo :: "'m Memo option"
  timeBounds :: "(64 word \<times> 64 word) option"
  tx_operations :: "'op list"
  ext :: nat

text \<open>
  Modelled from the spec: \<open>xdr.SequenceNumber.fromString\<close> and
  \<open>UnsignedHyper.fromString\<close> of the binary codec. Each accepts a decimal numeral
  (the first with an optional sign) and rejects any other string; the value is the
  integer the numeral denotes reduced to 64 bits, signed for the sequence number and
  unsigned for a time bound.
\<close>

definition SequenceNumber_fromString :: "string \<Rightarrow> error + 64 word" where
  "SequenceNumber_fromString s =
     (if is_int_numeral s then Inr (of_int (parse_int s)) else Inl InvalidHyperString)"

definition UnsignedHyper_fromString :: "string \<Rightarrow> error + 64 word" where
  "UnsignedHyper_fromString s =
     (if is_nat_numeral s then Inr (of_nat (parse_nat s)) else Inl InvalidHyperString)"

text \<open>\<open>getTime() / 1000\<close> on a time value.\<close>

definition date_seconds :: "Host \<Rightarrow> int \<Rightarrow> jsnum" where
  "date_seconds H ms =
     (let q = of_int ms / 1000 in if safe_int q then Fin q else host_round H q)"

text \<open>
  One bound of the time bounds as \<open>build\<close> encodes it: a valid \<open>Date\<close> is first
  replaced by \<open>getTime() / 1000\<close>, then the value's \<open>toString()\<close> is handed to
  \<open>UnsignedHyper.fromString\<close>. \<open>undefined\<close> and \<open>null\<close> have no \<open>toString\<close>; an
  invalid \<open>Date\<close> prints as \<open>Invalid Date\<close>, which is no numeral.
\<close>

fun bound_string :: "Host \<Rightarrow> Heap \<Rightarrow> jsval \<Rightarrow> error + string" where
  "bound_string H h JUndefined = Inl TypeError"
| "bound_string H h JNull = Inl TypeError"
| "bound_string H h (JNum n) = Inr (number_toString H n)"
| "bound_string H h (JStr s) = Inr s"
| "bound_string H h (JDate d) =
     (if isValidDate h (JDate d) then
        (case dates h d of
           Some (Some ms) \<Rightarrow> Inr (number_toString H (date_seconds H ms))
         | _ \<Rightarrow> Inl InvalidHyperString)
      else Inl InvalidHyperString)"
| "bound_string H h (JUHyper w) = Inr (show_nat (unat w))"

definition encode_bound :: "Host \<Rightarrow> Heap \<Rightarrow> jsval \<Rightarrow> error + 64 word" where
  "encode_bound H h v =
     (case bound_string H h v of Inl e \<Rightarrow> Inl e | Inr s \<Rightarrow> UnsignedHyper_fromString s)"

text \<open>The \<open>if (this.timebounds)\<close> block of \<open>build\<close>: the builder's time-bounds object
  is overwritten with the encoded bounds.\<close>

definition encode_timebounds ::
  "Host \<Rightarrow> Heap \<Rightarrow> nat option \<Rightarrow> error + ((64 word \<times> 64 word) option \<times> Heap)" where
  "encode_timebounds H h t =
     (case t of
        None \<Rightarrow> Inr (None, h)
      | Some r \<Rightarrow>
          (case get_object h r of
             None \<Rightarrow> Inl TypeError
           | Some tb \<Rightarrow>
               (case encode_bound H h (minTime tb) of
                  Inl e \<Rightarrow> Inl e
                | Inr lo \<Rightarrow>
                    (case encode_bound H h (maxTime tb) of
                       Inl e \<Rightarrow> Inl e
                     | Inr hi \<Rightarrow>
                         Inr (Some (lo, hi),
                              set_object h r \<lparr>minTime = JUHyper lo, maxTime = JUHyper hi\<rparr>)))))"

text \<open>\<open>this.timebounds === null || this.timebounds.maxTime === 0\<close>.\<close>

definition maxTime_unset :: "Heap \<Rightarrow> ('op, 'm) TransactionBuilder \<Rightarrow> bool" where
  "maxTime_unset h b =
     (case timebounds b of
        None \<Rightarrow> True
      | Some r \<Rightarrow>
          (case get_object h r of None \<Rightarrow> False | Some tb \<Rightarrow> strict_equal (maxTime tb) (JNum (Fin 0))))"

definition build ::
  "Host \<Rightarrow> StrKey \<Rightarrow> Heap \<Rightarrow> ('op, 'm) TransactionBuilder
     \<Rightarrow> error + (('op, 'm) Transaction \<times> Heap)" where
  "build H K h b =
     (if maxTime_unset h b \<and> \<not> timeoutSet b then Inl MissingTimeBounds
      else
        (case accounts h (source b) of
           None \<Rightarrow> Inl TypeError
         | Some acct \<Rightarrow>
             let sequenceNumber' = BigNumber_add (BigNumber_new (sequenceNumber acct)) 1
             in (case xdrAccountId K (accountId acct) of
                   Inl e \<Rightarrow> Inl e
                 | Inr src \<Rightarrow>
                     (case SequenceNumber_fromString (BigNumber_toString sequenceNumber') of
                        Inl e \<Rightarrow> Inl e
                      | Inr sn \<Rightarrow>
                          (case encode_timebounds H h (timebounds b) of
                             Inl e \<Rightarrow> Inl e
                           | Inr (tbs, h') \<Rightarrow>
                               Inr (\<lparr>tx_sourceAccount = src,
                                     fee = js_mul H (baseFee b) (Fin (of_nat (length (operations b)))),
                                     seqNum = sn,
                                     tx_memo = memo b,
                                     timeBounds = tbs,
                                     tx_operations = operations b,
                                     ext = 0\<rparr>,
                                    h'\<lparr>accounts := (accounts h')(source b \<mapsto> incrementSequenceNumber acct)\<rparr>))))))"

text \<open>
  The builder's stored time bounds as an observer sees them: the property values of the
  builder's time-bounds object, and for a property that is a \<open>Date\<close> the time value
  that \<open>Date\<close> holds.
\<close>

fun date_of :: "Heap \<Rightarrow> jsval \<Rightarrow> int option option" where
  "date_of h (JDate d) = dates h d"
| "date_of h v = None"

definition stored_timebounds ::
  "Heap \<Rightarrow> ('op, 'm) TransactionBuilder \<Rightarrow> (TimeBounds \<times> int option option \<times> int option option) option" where
  "stored_timebounds h b =
     (case timebounds b of
        None \<Rightarrow> None
      | Some r \<Rightarrow>
          (case get_object h r of
             None \<Rightarrow> None
           | Some tb \<Rightarrow> Some (tb, date_of h (minTime tb), date_of h (maxTime tb))))"

section \<open>A sample codec and sample objects\<close>

text \<open>A codec that knows one identity, the account of the sources' documentation, and
  objects built on it. They instantiate the theorems below at concrete inputs.\<close>

definition ex_id :: string where
  "ex_id = ''GB3KJPLFUYN5VL6R3GU3EGCGVCKFDSD7BEDX42HWG5BWFKB3KQGJJRMA''"

definition ex_raw :: "8 word list" where
  "ex_raw = [1, 2, 3]"

definition ex_key :: StrKey where
  "ex_key =
     \<lparr>isValidEd25519PublicKey = (\<lambda>s. s = ex_id),
      encodeEd25519PublicKey = (\<lambda>raw. ex_id),
      decodeEd25519PublicKey = (\<lambda>s. if s = ex_id then Some ex_raw else None)\<rparr>"

text \<open>A host that rounds nothing and reads and prints nothing beyond the exact cases.\<close>

definition ex_host :: Host where
  "ex_host = \<lparr>host_round = Fin, host_toString = (\<lambda>q. ''?''), host_toNumber = (\<lambda>s. NaN)\<rparr>"

definition ex_account :: Account where
  "ex_account = \<lparr>accountId_field = ex_id, sequence = BN 100\<rparr>"

definition ex_heap :: Heap where
  "ex_heap = \<lparr>accounts = [0 \<mapsto> ex_account], objects = [], dates = Map.empty\<rparr>"

text \<open>A builder on the sample account after \<open>setTimeout(TimeoutInfinite)\<close>, with the
  given operations.\<close>

definition ex_builder :: "string list \<Rightarrow> (string, unit) TransactionBuilder" where
  "ex_builder ops =
     \<lparr>source = 0, operations = ops, baseFee = Fin 100, timebounds = None,
      memo = Some MemoNone, timeoutSet = True\<rparr>"

text \<open>Constructor options with the fee 100 and the given time-bounds object, and the
  builder the constructor makes of them for the sample account.\<close>

definition ex_opts :: "nat option \<Rightarrow> unit Opts" where
  "ex_opts t = \<lparr>opts_fee = Some (Fin 100), opts_timebounds = t, opts_memo = None\<rparr>"

definition ex_new_builder :: "nat option \<Rightarrow> (string, unit) TransactionBuilder" where
  "ex_new_builder t =
     \<lparr>source = 0, operations = [], baseFee = Fin 100, timebounds = t,
      memo = Some MemoNone, timeoutSet = False\<rparr>"

text \<open>A store in which the caller holds one time-bounds object, with the given
  \<open>maxTime\<close>, and one \<open>Date\<close>.\<close>

definition ex_bounds_heap :: "jsval \<Rightarrow> Heap" where
  "ex_bounds_heap v =
     \<lparr>accounts = [0 \<mapsto> ex_account],
      objects = [\<lparr>minTime = JNum (Fin 0), maxTime = v\<rparr>],
      dates = [0 \<mapsto> Some 1700000000000]\<rparr>"

section \<open>Decimal numerals: printing and reading\<close>

lemma digit_val_digit_char: "d < 10 \<Longrightarrow> digit_val (digit_char d) = d"
proof -
  assume "d < 10"
  then have "d \<in> {0, 1, 2, 3, 4, 5, 6, 7, 8, 9}" by auto
  then show ?thesis by (auto simp: digit_val_def digit_char_def)
qed

lemma is_digit_digit_char: "d < 10 \<Longrightarrow> is_digit (digit_char d)"
proof -
  assume "d < 10"
  then have "d \<in> {0, 1, 2, 3, 4, 5, 6, 7, 8, 9}" by auto
  then show ?thesis by (auto simp: is_digit_def digit_char_def)
qed

lemma show_nat_small: "n < 10 \<Longrightarrow> show_nat n = [digit_char n]"
  by (simp add: show_nat.simps [of n])

lemma show_nat_large:
  "\<not> n < 10 \<Longrightarrow> show_nat n = show_nat (n div 10) @ [digit_char (n mod 10)]"
  by (simp add: show_nat.simps [of n])

lemma parse_nat_snoc: "parse_nat (s @ [c]) = 10 * parse_nat s + digit_val c"
  by (simp add: parse_nat_def)

lemma parse_show_nat: "parse_nat (show_nat n) = n"
proof (induction n rule: show_nat.induct)
  case (1 n)
  show ?case
  proof (cases "n < 10")
    case True
    then show ?thesis
      by (simp add: show_nat_small parse_nat_def digit_val_digit_char)
  next
    case False
    with 1 have "parse_nat (show_nat (n div 10)) = n div 10" by simp
    with False show ?thesis
      by (simp add: show_nat_large parse_nat_snoc digit_val_digit_char)
  qed
qed

lemma show_nat_digits: "list_all is_digit (show_nat n)"
proof (induction n rule: show_nat.induct)
  case (1 n)
  show ?case
  proof (cases "n < 10")
    case True
    then show ?thesis by (simp add: show_nat_small is_digit_digit_char)
  next
    case False
    with 1 have "list_all is_digit (show_nat (n div 10))" by simp
    with False show ?thesis
      by (simp add: show_nat_large is_digit_digit_char)
  qed
qed

lemma show_nat_nonempty: "show_nat n \<noteq> []"
  by (cases "n < 10") (simp_all add: show_nat_small show_nat_large)

lemma is_nat_numeral_show_nat: "is_nat_numeral (show_nat n)"
  by (simp add: is_nat_numeral_def show_nat_digits show_nat_nonempty)

lemma hd_show_nat_not_minus: "hd (show_nat n) \<noteq> CHR ''-''"
proof -
  have "is_digit (hd (show_nat n))"
    using show_nat_digits [of n] show_nat_nonempty [of n]
    by (cases "show_nat n") simp_all
  then show ?thesis by (auto simp: is_digit_def)
qed

lemma is_int_numeral_show_nat: "is_int_numeral (show_nat n)"
  using hd_show_nat_not_minus [of n] is_nat_numeral_show_nat [of n] show_nat_nonempty [of n]
  by (cases "show_nat n") auto

lemma parse_int_show_nat: "parse_int (show_nat n) = int n"
  using hd_show_nat_not_minus [of n] parse_show_nat [of n] show_nat_nonempty [of n]
  by (cases "show_nat n") auto

lemma is_int_numeral_show_int: "is_int_numeral (show_int i)"
  by (simp add: show_int_def is_int_numeral_show_nat is_nat_numeral_show_nat)

lemma parse_int_show_int: "parse_int (show_int i) = i"
  by (simp add: show_int_def parse_int_show_nat parse_show_nat)

lemma BigNumber_new_show_int: "BigNumber_new (show_int i) = BN i"
  by (simp add: BigNumber_new_def is_int_numeral_show_int parse_int_show_int)

lemma BigNumber_new_show_nat: "BigNumber_new (show_nat n) = BN (int n)"
  by (simp add: BigNumber_new_def is_int_numeral_show_nat parse_int_show_nat)

lemma show_int_of_nat: "show_int (int n) = show_nat n"
  by (simp add: show_int_def)

lemma BigNumber_new_NaN: "BigNumber_new ''NaN'' = BN_NaN"
  by (simp add: BigNumber_new_def is_nat_numeral_def is_digit_def)

section \<open>Account\<close>

text \<open>
  C9, as the code has it. The sequence is kept as a number, so \<open>sequenceNumber()\<close>
  returns the decimal numeral of the value the string denotes: for every valid identity
  and every non-negative integer \<open>n\<close>, an account constructed from the numeral of \<open>n\<close>
  (without leading zeros) reports that numeral, and after one
  \<open>incrementSequenceNumber()\<close> the numeral of \<open>n + 1\<close>, whatever the size of \<open>n\<close>.
\<close>

theorem Account_sequence_exact:
  assumes "isValidEd25519PublicKey K aid"
  shows "\<exists>a. Account_new K (JStr aid) (JStr (show_nat n)) = Inr a
           \<and> sequenceNumber a = show_nat n
           \<and> sequenceNumber (incrementSequenceNumber a) = show_nat (n + 1)"
proof -
  let ?a = "\<lparr>accountId_field = aid, sequence = BN (int n)\<rparr>"
  have new: "Account_new K (JStr aid) (JStr (show_nat n)) = Inr ?a"
    using assms by (simp add: Account_new_def BigNumber_new_show_nat)
  have before: "sequenceNumber ?a = show_nat n"
    by (simp add: sequenceNumber_def show_int_of_nat)
  have "int n + 1 = int (n + 1)" by simp
  then have "show_int (int n + 1) = show_int (int (n + 1))" by (rule arg_cong)
  also have "\<dots> = show_nat (n + 1)" by (rule show_int_of_nat)
  finally have after: "sequenceNumber (incrementSequenceNumber ?a) = show_nat (n + 1)"
    by (simp add: sequenceNumber_def incrementSequenceNumber_def)
  from new before after show ?thesis by blast
qed

theorem Account_sequence_exact_witness:
  "isValidEd25519PublicKey ex_key ex_id
   \<and> (\<exists>a. Account_new ex_key (JStr ex_id) (JStr ''18446744073709551615'') = Inr a
          \<and> sequenceNumber a = ''18446744073709551615''
          \<and> sequenceNumber (incrementSequenceNumber a) = ''18446744073709551616'')"
proof -
  have valid: "isValidEd25519PublicKey ex_key ex_id"
    by (simp add: ex_key_def)
  have s0: "show_nat 18446744073709551615 = ''18446744073709551615''"
    by (simp add: show_nat_small show_nat_large digit_char_def)
  have s1: "show_nat (18446744073709551615 + 1) = ''18446744073709551616''"
    by (simp add: show_nat_small show_nat_large digit_char_def)
  show ?thesis
    using valid Account_sequence_exact [OF valid, of 18446744073709551615]
    unfolding s0 s1 by simp
qed

theorem Account_leading_zeros_counterexample:
  "Account_new ex_key (JStr ex_id) (JStr ''007'') = Inr \<lparr>accountId_field = ex_id, sequence = BN 7\<rparr>
   \<and> sequenceNumber \<lparr>accountId_field = ex_id, sequence = BN 7\<rparr> = ''7''
   \<and> sequenceNumber \<lparr>accountId_field = ex_id, sequence = BN 7\<rparr> \<noteq> ''007''"
proof -
  have "BigNumber_new ''007'' = BN 7"
    by (simp add: BigNumber_new_def is_nat_numeral_def is_digit_def parse_nat_def digit_val_def)
  moreover have "show_int 7 = ''7''"
    by (simp add: show_int_def show_nat_small digit_char_def)
  ultimately show ?thesis
    by (simp add: Account_new_def ex_key_def sequenceNumber_def)
qed

text \<open>
  C5, as the code has it. Construction fails with the identity error when the identity
  fails the external validity check, and with the sequence error for every sequence
  argument that is not of type string; the content of a string is not inspected.
\<close>

theorem Account_new_errors:
  "(\<not> isValidKey K aid \<longrightarrow> Account_new K aid s = Inl InvalidIdentity)
   \<and> (isValidKey K aid \<and> \<not> isString s \<longrightarrow> Account_new K aid s = Inl InvalidSequenceFormat)"
proof (intro conjI impI)
  assume "\<not> isValidKey K aid"
  then show "Account_new K aid s = Inl InvalidIdentity"
    by (cases aid) (simp_all add: Account_new_def)
next
  assume "isValidKey K aid \<and> \<not> isString s"
  then show "Account_new K aid s = Inl InvalidSequenceFormat"
    by (cases aid; cases s) (simp_all add: Account_new_def)
qed

theorem Account_new_errors_witness:
  "\<not> isValidKey ex_key (JStr ''not an identity'')
   \<and> Account_new ex_key (JStr ''not an identity'') (JStr ''1'') = Inl InvalidIdentity
   \<and> isValidKey ex_key (JStr ex_id) \<and> \<not> isString (JNum (Fin 5))
   \<and> Account_new ex_key (JStr ex_id) (JNum (Fin 5)) = Inl InvalidSequenceFormat"
proof -
  have bad: "\<not> isValidKey ex_key (JStr ''not an identity'')"
    by (simp add: ex_key_def ex_id_def)
  have good: "isValidKey ex_key (JStr ex_id) \<and> \<not> isString (JNum (Fin 5))"
    by (simp add: ex_key_def)
  show ?thesis
    using bad good
      Account_new_errors [of ex_key "JStr ''not an identity''" "JStr ''1''"]
      Account_new_errors [of ex_key "JStr ex_id" "JNum (Fin 5)"]
    by simp
qed

theorem Account_negative_sequence_counterexample:
  "Account_new ex_key (JStr ex_id) (JStr ''-1'') = Inr \<lparr>accountId_field = ex_id, sequence = BN (- 1)\<rparr>"
  by (simp add: Account_new_def ex_key_def BigNumber_new_def is_nat_numeral_def is_digit_def
      parse_nat_def digit_val_def)

section \<open>Asset\<close>

lemma codec_ok_ex_key: "codec_ok ex_key"
  by (simp add: codec_ok_def ex_key_def)

lemma codec_okD:
  "codec_ok K \<Longrightarrow> isValidEd25519PublicKey K s \<Longrightarrow>
     \<exists>raw. decodeEd25519PublicKey K s = Some raw \<and> encodeEd25519PublicKey K raw = s"
  by (simp add: codec_ok_def)

lemma is_alnum_not_NUL: "is_alnum x \<Longrightarrow> x \<noteq> NUL"
  by (auto simp: is_alnum_def NUL_def)

lemma valid_code_no_NUL: "valid_code c \<Longrightarrow> NUL \<notin> set c"
  using is_alnum_not_NUL by (auto simp: valid_code_def list_all_iff)

lemma dropWhile_no_match: "x \<notin> set ys \<Longrightarrow> dropWhile (\<lambda>y. y = x) ys = ys"
  by (cases ys) auto

lemma trimEnd_padEnd: "c \<notin> set s \<Longrightarrow> trimEnd (padEnd s n c) c = s"
proof -
  assume notin: "c \<notin> set s"
  have "dropWhile (\<lambda>y. y = c) (replicate (n - length s) c @ rev s) = dropWhile (\<lambda>y. y = c) (rev s)"
    by (rule dropWhile_append2) simp
  also have "\<dots> = rev s"
    using notin by (simp add: dropWhile_no_match)
  finally show ?thesis
    by (simp add: trimEnd_def padEnd_def)
qed

lemma length_padEnd: "length (padEnd s n c) = max (length s) n"
  by (simp add: padEnd_def)

lemma valid_code_XLM: "valid_code ''XLM''"
  by (simp add: valid_code_def is_alnum_def)

lemma valid_code_xlm: "valid_code ''xlm''"
  by (simp add: valid_code_def is_alnum_def)

lemma toLowerCase_XLM: "toLowerCase ''XLM'' = ''xlm''"
  by (simp add: toLowerCase_def lower_char_def)

lemma toLowerCase_xlm: "toLowerCase ''xlm'' = ''xlm''"
  by (simp add: toLowerCase_def lower_char_def)

lemma native_value: "native K = Inr \<lparr>code = ''XLM'', issuer = JUndefined\<rparr>"
  by (simp add: native_def Asset_new_def valid_code_XLM toLowerCase_XLM)

lemma Asset_new_lower_native:
  "Asset_new K ''xlm'' JUndefined = Inr \<lparr>code = ''xlm'', issuer = JUndefined\<rparr>"
  by (simp add: Asset_new_def valid_code_xlm toLowerCase_xlm)

lemma Asset_new_InrD:
  "Asset_new K c i = Inr a \<Longrightarrow>
     a = \<lparr>code = c, issuer = i\<rparr> \<and> valid_code c
     \<and> (truthy i \<or> toLowerCase c = ''xlm'') \<and> (truthy i \<longrightarrow> isValidKey K i)"
  by (auto simp: Asset_new_def split: if_splits)

lemma isValidKey_JStr: "isValidKey K i \<Longrightarrow> \<exists>s. i = JStr s \<and> isValidEd25519PublicKey K s"
  by (cases i) simp_all

text \<open>
  C10. The native ticker in lower case, with the issuer omitted, is accepted by the
  constructor and is native, yet it is not equal to \<open>Asset.native()\<close>, whose code is
  exactly \<open>XLM\<close>.
\<close>

theorem lowercase_native_not_equal_native:
  "Asset_new K ''xlm'' JUndefined = Inr \<lparr>code = ''xlm'', issuer = JUndefined\<rparr>
   \<and> isNative \<lparr>code = ''xlm'', issuer = JUndefined\<rparr>
   \<and> native K = Inr \<lparr>code = ''XLM'', issuer = JUndefined\<rparr>
   \<and> \<not> equals \<lparr>code = ''xlm'', issuer = JUndefined\<rparr> \<lparr>code = ''XLM'', issuer = JUndefined\<rparr>"
  by (simp add: Asset_new_lower_native native_value isNative_def equals_def getCode_def)

theorem lowercase_native_not_equal_native_witness:
  "Asset_new ex_key ''xlm'' JUndefined = Inr \<lparr>code = ''xlm'', issuer = JUndefined\<rparr>
   \<and> isNative \<lparr>code = ''xlm'', issuer = JUndefined\<rparr>
   \<and> native ex_key = Inr \<lparr>code = ''XLM'', issuer = JUndefined\<rparr>
   \<and> \<not> equals \<lparr>code = ''xlm'', issuer = JUndefined\<rparr> \<lparr>code = ''XLM'', issuer = JUndefined\<rparr>"
  by (rule lowercase_native_not_equal_native [of ex_key])

text \<open>
  C6, as the code has it. For every asset the constructor returns: when the issuer is
  absent the code is, up to letter case, the native ticker, and when the issuer is
  present it is a valid identity. The factory returns the asset with code \<open>XLM\<close> and no
  issuer. The constructor does not refuse an issuer for the native ticker.
\<close>

theorem Asset_issuer_invariant:
  assumes "Asset_new K c i = Inr a"
  shows "(isNative a \<longrightarrow> toLowerCase (code a) = ''xlm'')
         \<and> (\<not> isNative a \<longrightarrow> isValidKey K (issuer a))
         \<and> native K = Inr \<lparr>code = ''XLM'', issuer = JUndefined\<rparr>
         \<and> isNative \<lparr>code = ''XLM'', issuer = JUndefined\<rparr>"
  using Asset_new_InrD [OF assms]
  by (auto simp: isNative_def native_value)

theorem Asset_issuer_invariant_witness:
  "Asset_new ex_key ''xLm'' JNull = Inr \<lparr>code = ''xLm'', issuer = JNull\<rparr>
   \<and> isNative \<lparr>code = ''xLm'', issuer = JNull\<rparr>
   \<and> toLowerCase (code \<lparr>code = ''xLm'', issuer = JNull\<rparr>) = ''xlm''
   \<and> Asset_new ex_key ''USD'' (JStr ex_id) = Inr \<lparr>code = ''USD'', issuer = JStr ex_id\<rparr>
   \<and> \<not> isNative \<lparr>code = ''USD'', issuer = JStr ex_id\<rparr>
   \<and> isValidKey ex_key (issuer \<lparr>code = ''USD'', issuer = JStr ex_id\<rparr>)"
proof -
  have lower: "toLowerCase ''xLm'' = ''xlm''"
    by (simp add: toLowerCase_def lower_char_def)
  have n: "Asset_new ex_key ''xLm'' JNull = Inr \<lparr>code = ''xLm'', issuer = JNull\<rparr>"
    by (simp add: Asset_new_def valid_code_def is_alnum_def lower)
  have nat: "isNative \<lparr>code = ''xLm'', issuer = JNull\<rparr>"
    by (simp add: isNative_def)
  have u: "Asset_new ex_key ''USD'' (JStr ex_id) = Inr \<lparr>code = ''USD'', issuer = JStr ex_id\<rparr>"
    by (simp add: Asset_new_def valid_code_def is_alnum_def ex_key_def ex_id_def)
  have cred: "\<not> isNative \<lparr>code = ''USD'', issuer = JStr ex_id\<rparr>"
    by (simp add: isNative_def ex_id_def)
  show ?thesis
    using n nat u cred Asset_issuer_invariant [OF n] Asset_issuer_invariant [OF u]
    by simp
qed

theorem native_ticker_with_issuer_counterexample:
  "Asset_new ex_key ''XLM'' (JStr ex_id) = Inr \<lparr>code = ''XLM'', issuer = JStr ex_id\<rparr>
   \<and> toLowerCase (code \<lparr>code = ''XLM'', issuer = JStr ex_id\<rparr>) = ''xlm''
   \<and> \<not> isNative \<lparr>code = ''XLM'', issuer = JStr ex_id\<rparr>"
  by (simp add: Asset_new_def valid_code_XLM toLowerCase_XLM isNative_def ex_key_def ex_id_def)

subsection \<open>Canonical form\<close>

lemma toXDRObject_native:
  "\<not> truthy i \<Longrightarrow> toXDRObject K \<lparr>code = c, issuer = i\<rparr> = Inr AssetTypeNative"
  by (simp add: toXDRObject_def isNative_def)

lemma toXDRObject_credit:
  assumes "decodeEd25519PublicKey K s = Some raw" and "s \<noteq> []"
  shows "toXDRObject K \<lparr>code = c, issuer = JStr s\<rparr> =
           Inr (if length c \<le> 4 then AssetTypeCreditAlphanum4 (padEnd c 4 NUL) raw
                else AssetTypeCreditAlphanum12 (padEnd c 12 NUL) raw)"
  using assms by (simp add: toXDRObject_def isNative_def xdrAccountId_def)

lemma fromOperation_credit:
  assumes "Asset_new K c (JStr s) = Inr a" and "encodeEd25519PublicKey K raw = s"
    and "NUL \<notin> set c"
  shows "fromOperation K (if length c \<le> 4 then AssetTypeCreditAlphanum4 (padEnd c 4 NUL) raw
                          else AssetTypeCreditAlphanum12 (padEnd c 12 NUL) raw) = Inr a"
  using assms by (simp add: trimEnd_padEnd)

lemma equals_refl: "issuer a \<noteq> JNum NaN \<Longrightarrow> equals a a"
  by (simp add: equals_def getCode_def getIssuer_def strict_equal_def)

text \<open>
  C4, as the code has it. For every asset constructed with an issuer, and for the native
  asset constructed with the code \<open>XLM\<close> and the issuer omitted, decoding the canonical
  form gives an asset equal to the original. With an issuer the canonical form takes the
  4-byte slot when the code has at most 4 characters and the 12-byte slot otherwise, the
  slot holds the code padded on the right with null bytes to the slot's width, and
  trimming the trailing null bytes gives the code back.
\<close>

theorem Asset_canonical_roundtrip:
  assumes ok: "codec_ok K"
    and new: "Asset_new K c i = Inr a"
    and shape: "truthy i \<or> (c = ''XLM'' \<and> i = JUndefined)"
  shows "\<exists>x a'. toXDRObject K a = Inr x \<and> fromOperation K x = Inr a' \<and> equals a' a
           \<and> (truthy i \<longrightarrow>
                (\<exists>raw. x = (if length c \<le> 4 then AssetTypeCreditAlphanum4 (padEnd c 4 NUL) raw
                             else AssetTypeCreditAlphanum12 (padEnd c 12 NUL) raw))
                \<and> length (padEnd c (if length c \<le> 4 then 4 else 12) NUL)
                    = (if length c \<le> 4 then 4 else 12)
                \<and> trimEnd (padEnd c (if length c \<le> 4 then 4 else 12) NUL) NUL = c)"
proof (cases "truthy i")
  case True
  from Asset_new_InrD [OF new]
  have a: "a = \<lparr>code = c, issuer = i\<rparr>" and vc: "valid_code c" and vk: "isValidKey K i"
    using True by simp_all
  from isValidKey_JStr [OF vk] obtain s where i: "i = JStr s" and vs: "isValidEd25519PublicKey K s"
    by blast
  from codec_okD [OF ok vs] obtain raw
    where dec: "decodeEd25519PublicKey K s = Some raw" and enc: "encodeEd25519PublicKey K raw = s"
    by blast
  from True i have ne: "s \<noteq> []" by simp
  let ?x = "if length c \<le> 4 then AssetTypeCreditAlphanum4 (padEnd c 4 NUL) raw
            else AssetTypeCreditAlphanum12 (padEnd c 12 NUL) raw"
  have nonul: "NUL \<notin> set c" by (rule valid_code_no_NUL [OF vc])
  have encoded: "toXDRObject K a = Inr ?x"
    unfolding a i by (rule toXDRObject_credit [OF dec ne])
  have "Asset_new K c (JStr s) = Inr a" using new i by simp
  then have decoded: "fromOperation K ?x = Inr a"
    using enc nonul by (rule fromOperation_credit)
  have len: "length (padEnd c (if length c \<le> 4 then 4 else 12) NUL)
               = (if length c \<le> 4 then 4 else 12)"
    using vc by (auto simp: length_padEnd valid_code_def)
  have trim: "trimEnd (padEnd c (if length c \<le> 4 then 4 else 12) NUL) NUL = c"
    by (rule trimEnd_padEnd [OF nonul])
  have "equals a a" by (rule equals_refl) (simp add: a i)
  with encoded decoded len trim show ?thesis by blast
next
  case False
  with shape have c: "c = ''XLM''" and i: "i = JUndefined" by simp_all
  from Asset_new_InrD [OF new] have a: "a = \<lparr>code = ''XLM'', issuer = JUndefined\<rparr>"
    using c i by simp
  have "toXDRObject K a = Inr AssetTypeNative"
    unfolding a by (rule toXDRObject_native) simp
  moreover have "fromOperation K AssetTypeNative = Inr a"
    by (simp add: native_value a)
  moreover have "equals a a" by (rule equals_refl) (simp add: a)
  ultimately show ?thesis
    using False by blast
qed

theorem Asset_canonical_roundtrip_witness:
  "codec_ok ex_key
   \<and> Asset_new ex_key ''USD'' (JStr ex_id) = Inr \<lparr>code = ''USD'', issuer = JStr ex_id\<rparr>
   \<and> truthy (JStr ex_id)
   \<and> toXDRObject ex_key \<lparr>code = ''USD'', issuer = JStr ex_id\<rparr>
        = Inr (AssetTypeCreditAlphanum4 (''USD'' @ [NUL]) ex_raw)
   \<and> (\<exists>x a'. toXDRObject ex_key \<lparr>code = ''USD'', issuer = JStr ex_id\<rparr> = Inr x
          \<and> fromOperation ex_key x = Inr a'
          \<and> equals a' \<lparr>code = ''USD'', issuer = JStr ex_id\<rparr>)
   \<and> trimEnd (''USD'' @ [NUL]) NUL = ''USD''"
proof -
  have new: "Asset_new ex_key ''USD'' (JStr ex_id) = Inr \<lparr>code = ''USD'', issuer = JStr ex_id\<rparr>"
    by (simp add: Asset_new_def valid_code_def is_alnum_def ex_key_def ex_id_def)
  have tr: "truthy (JStr ex_id)"
    by (simp add: ex_id_def)
  have pad: "padEnd ''USD'' 4 NUL = ''USD'' @ [NUL]"
    by (simp add: padEnd_def)
  have encoded: "toXDRObject ex_key \<lparr>code = ''USD'', issuer = JStr ex_id\<rparr>
              = Inr (AssetTypeCreditAlphanum4 (''USD'' @ [NUL]) ex_raw)"
    using tr by (simp add: toXDRObject_def isNative_def xdrAccountId_def ex_key_def pad)
  from Asset_canonical_roundtrip [OF codec_ok_ex_key new disjI1 [OF tr]]
  show ?thesis
    using codec_ok_ex_key new tr encoded by (auto simp: pad)
qed

theorem lowercase_native_roundtrip_counterexample:
  "Asset_new ex_key ''xlm'' JUndefined = Inr \<lparr>code = ''xlm'', issuer = JUndefined\<rparr>
   \<and> toXDRObject ex_key \<lparr>code = ''xlm'', issuer = JUndefined\<rparr> = Inr AssetTypeNative
   \<and> fromOperation ex_key AssetTypeNative = Inr \<lparr>code = ''XLM'', issuer = JUndefined\<rparr>
   \<and> \<not> equals \<lparr>code = ''XLM'', issuer = JUndefined\<rparr> \<lparr>code = ''xlm'', issuer = JUndefined\<rparr>"
  by (simp add: Asset_new_lower_native toXDRObject_native native_value equals_def getCode_def)

section \<open>Numbers\<close>

lemma safe_int_of_int: "safe_int (of_int n) \<longleftrightarrow> \<bar>n\<bar> \<le> 2 ^ 53"
proof -
  have "\<bar>rat_of_int n\<bar> \<le> 2 ^ 53 \<longleftrightarrow> rat_of_int \<bar>n\<bar> \<le> rat_of_int (2 ^ 53)"
    by simp
  also have "\<dots> \<longleftrightarrow> \<bar>n\<bar> \<le> 2 ^ 53"
    by (rule of_int_le_iff)
  finally show ?thesis
    by (simp add: safe_int_def)
qed



lemma js_add_safe:
  "\<bar>a + n\<bar> \<le> 2 ^ 53 \<Longrightarrow> js_add H (Fin (of_int a)) (Fin (of_int n)) = Fin (of_int (a + n))"
proof -
  assume range: "\<bar>a + n\<bar> \<le> 2 ^ 53"
  have "rat_of_int a + rat_of_int n = rat_of_int (a + n)"
    by simp
  moreover from range have "safe_int (rat_of_int (a + n))"
    by (simp only: safe_int_of_int)
  ultimately show ?thesis
    by (simp add: js_add_def)
qed

lemma number_toString_int:
  "\<bar>n\<bar> \<le> 2 ^ 53 \<Longrightarrow> number_toString H (Fin (of_int n)) = show_int n"
  by (simp add: safe_int_of_int)


section \<open>TransactionBuilder: build\<close>

lemma addOperation_count:
  "length (operations (addOperation b x)) = Suc (length (operations b))
   \<and> baseFee (addOperation b x) = baseFee b"
  by (simp add: addOperation_def)

lemma TransactionBuilder_new_fee:
  "TransactionBuilder_new h src opts = Inr (b, h1) \<Longrightarrow>
     operations b = [] \<and> baseFee b = (case opts_fee opts of None \<Rightarrow> BASE_FEE | Some f \<Rightarrow> f)"
  by (auto simp: TransactionBuilder_new_def split: option.splits prod.splits)

lemma sequence_roundtrip:
  "SequenceNumber_fromString (BigNumber_toString (BigNumber_add (BigNumber_new (sequenceNumber acct)) 1))
     = (case sequence acct of BN n \<Rightarrow> Inr (of_int (n + 1)) | BN_NaN \<Rightarrow> Inl InvalidHyperString)"
proof (cases "sequence acct")
  case (BN n)
  then show ?thesis
    by (simp add: sequenceNumber_def BigNumber_new_show_int SequenceNumber_fromString_def
        is_int_numeral_show_int parse_int_show_int)
next
  case BN_NaN
  have "\<not> is_int_numeral ''NaN''"
    by (simp add: is_nat_numeral_def is_digit_def)
  with BN_NaN show ?thesis
    by (simp add: sequenceNumber_def BigNumber_new_NaN SequenceNumber_fromString_def)
qed





text \<open>What the code's guard reports: the missing-time-bounds error is raised exactly
  when the builder has no time-bounds object or its \<open>maxTime\<close> is the number 0, and
  \<open>setTimeout\<close> was not called.\<close>

lemma bound_string_errors:
  "bound_string H h v = Inl e \<Longrightarrow> e = TypeError \<or> e = InvalidHyperString"
  by (cases v) (auto split: option.splits if_splits)

lemma encode_bound_errors:
  "encode_bound H h v = Inl e \<Longrightarrow> e = TypeError \<or> e = InvalidHyperString"
  using bound_string_errors [of H h v]
  by (auto simp: encode_bound_def UnsignedHyper_fromString_def split: sum.splits if_splits)

lemma encode_timebounds_errors:
  "encode_timebounds H h t = Inl e \<Longrightarrow> e = TypeError \<or> e = InvalidHyperString"
  using encode_bound_errors [of H h]
  by (auto simp: encode_timebounds_def split: option.splits sum.splits)

lemma build_MissingTimeBounds_iff:
  "build H K h b = Inl MissingTimeBounds \<longleftrightarrow> maxTime_unset h b \<and> \<not> timeoutSet b"
proof
  assume "maxTime_unset h b \<and> \<not> timeoutSet b"
  then show "build H K h b = Inl MissingTimeBounds"
    by (simp add: build_def)
next
  assume failed: "build H K h b = Inl MissingTimeBounds"
  show "maxTime_unset h b \<and> \<not> timeoutSet b"
  proof (rule ccontr)
    assume decided: "\<not> (maxTime_unset h b \<and> \<not> timeoutSet b)"
    from failed decided show False
      using encode_timebounds_errors [of H h "timebounds b"]
      by (auto simp: build_def xdrAccountId_def sequence_roundtrip
          split: option.splits sum.splits BigNumber.splits)
  qed
qed








text \<open>
  C2, where the code departs from it. A builder whose time-bounds object has a
  \<open>minTime\<close> but no \<open>maxTime\<close>, on which \<open>setTimeout\<close> was never called, has no
  positive \<open>maxTime\<close>; \<open>build()\<close> does not report the missing time bounds, because its
  guard only recognises a \<open>maxTime\<close> that is the number 0, and fails later on the
  absent value.
\<close>

theorem build_absent_maxTime_not_reported:
  "build ex_host ex_key
     (ex_heap\<lparr>objects := [\<lparr>minTime = JNum (Fin 100), maxTime = JUndefined\<rparr>]\<rparr>)
     ((ex_builder [''payment''])\<lparr>timebounds := Some 0, timeoutSet := False\<rparr>) = Inl TypeError
   \<and> \<not> js_gt_zero ex_host
        (ex_heap\<lparr>objects := [\<lparr>minTime = JNum (Fin 100), maxTime = JUndefined\<rparr>]\<rparr>) JUndefined
   \<and> \<not> timeoutSet ((ex_builder [''payment''])\<lparr>timebounds := Some 0, timeoutSet := False\<rparr>)"
proof -
  have "UnsignedHyper_fromString (show_int 100) = Inr 100"
    by (simp add: UnsignedHyper_fromString_def show_int_def is_nat_numeral_show_nat parse_show_nat)
  then show ?thesis
    by (simp add: build_def maxTime_unset_def get_object_def ex_builder_def ex_heap_def
        xdrAccountId_def ex_key_def ex_account_def accountId_def sequence_roundtrip
        encode_timebounds_def encode_bound_def safe_int_def strict_equal_def)
qed

text \<open>The same guard lets a \<open>maxTime\<close> given as the string \<open>0\<close> through, and the build
  succeeds without any validity-window decision.\<close>

lemma build_string_zero_maxTime_succeeds:
  "build ex_host ex_key
     (ex_heap\<lparr>objects := [\<lparr>minTime = JStr ''0'', maxTime = JStr ''0''\<rparr>]\<rparr>)
     ((ex_builder [''payment''])\<lparr>timebounds := Some 0, timeoutSet := False\<rparr>) =
     Inr (\<lparr>tx_sourceAccount = ex_raw, fee = Fin 100, seqNum = 101, tx_memo = Some MemoNone,
           timeBounds = Some (0, 0), tx_operations = [''payment''], ext = 0\<rparr>,
          \<lparr>accounts = [0 \<mapsto> incrementSequenceNumber ex_account],
           objects = [\<lparr>minTime = JUHyper 0, maxTime = JUHyper 0\<rparr>],
           dates = Map.empty\<rparr>)"
proof -
  have "UnsignedHyper_fromString ''0'' = Inr 0"
    by (simp add: UnsignedHyper_fromString_def is_nat_numeral_def is_digit_def parse_nat_def
        digit_val_def)
  then show ?thesis
    by (simp add: build_def maxTime_unset_def get_object_def ex_builder_def ex_heap_def
        xdrAccountId_def ex_key_def ex_account_def accountId_def sequence_roundtrip
        encode_timebounds_def encode_bound_def set_object_def strict_equal_def js_mul_def
        safe_int_def)
qed

section \<open>TransactionBuilder: constructor and setTimeout\<close>

lemma js_gt_zero_dates: "dates h' = dates h \<Longrightarrow> js_gt_zero H h' v = js_gt_zero H h v"
  by (cases v) simp_all

lemma TransactionBuilder_new_copy:
  assumes "TransactionBuilder_new h src opts = Inr (b, h1)"
    and "opts_timebounds opts = Some r" and "get_object h r = Some tb"
  shows "timebounds b = Some (length (objects h)) \<and> h1 = h\<lparr>objects := objects h @ [tb]\<rparr>
         \<and> timeoutSet b = False"
  using assms
  by (auto simp: TransactionBuilder_new_def clone_def new_object_def split: option.splits)

lemma TransactionBuilder_new_no_object:
  assumes "TransactionBuilder_new h src opts = Inr (b, h1)"
    and "opts_timebounds opts = Some r" and "get_object h r = None"
  shows "timebounds b = None \<and> h1 = h"
  using assms
  by (auto simp: TransactionBuilder_new_def clone_def split: option.splits)

lemma setTimeout_positive:
  assumes "setTimeout H h now b t = Inr (b1, h1)" and "num_gt_zero t"
  shows "timebounds b1 = Some (length (objects h))
         \<and> (\<exists>tb. get_object h1 (length (objects h)) = Some tb
                \<and> maxTime tb = JNum (js_add H (Fin (of_int (now div 1000))) t))
         \<and> dates h1 = dates h"
  using assms
  by (auto simp: setTimeout_def new_object_def get_object_def Let_def split: if_splits option.splits)

lemma setTimeout_conflict_iff:
  "setTimeout H h now b t = Inl TimeBoundsConflict \<longleftrightarrow> maxTime_set H h b"
  by (auto simp: setTimeout_def new_object_def Let_def split: if_splits)

lemma setTimeout_negative_iff:
  "\<not> maxTime_set H h b \<Longrightarrow> setTimeout H h now b t = Inl NegativeTimeout \<longleftrightarrow> num_lt_zero t"
  by (auto simp: setTimeout_def new_object_def Let_def split: if_splits)

text \<open>With whole seconds and a clock that is not before the epoch the timestamp that
  \<open>setTimeout\<close> computes is exact and positive.\<close>

lemma timestamp_positive:
  assumes "0 \<le> now" and "0 < n" and "now div 1000 + n \<le> 2 ^ 53"
  shows "js_add H (Fin (of_int (now div 1000))) (Fin (of_int n)) = Fin (of_int (now div 1000 + n))
         \<and> num_gt_zero (js_add H (Fin (of_int (now div 1000))) (Fin (of_int n)))"
proof -
  from assms have pos: "0 < now div 1000 + n"
    by (simp add: pos_imp_zdiv_nonneg_iff add_nonneg_pos)
  with assms have "\<bar>now div 1000 + n\<bar> \<le> 2 ^ 53" by simp
  then have sum: "js_add H (Fin (of_int (now div 1000))) (Fin (of_int n))
                    = Fin (of_int (now div 1000 + n))"
    by (rule js_add_safe)
  from pos have "0 < rat_of_int (now div 1000 + n)"
    by (simp only: of_int_0_less_iff)
  with sum show ?thesis by simp
qed

text \<open>
  C7, as the code has it. \<open>setTimeout\<close> fails with the conflict error exactly when, at
  the call, the builder's time bounds hold a \<open>maxTime\<close> that compares \<open>> 0\<close>; when they
  hold none, it fails with the negative-timeout error exactly when the argument is
  negative. The time bounds hold such a \<open>maxTime\<close> at a call on the builder and store as
  the constructor returned them, when the options supplied a \<open>maxTime > 0\<close>; and at a
  call on the builder and store as an earlier \<open>setTimeout\<close> returned them, when that
  call had a positive argument and computed a positive timestamp.
\<close>

theorem setTimeout_errors:
  "(setTimeout H h now b t = Inl TimeBoundsConflict \<longleftrightarrow> maxTime_set H h b)
   \<and> (\<not> maxTime_set H h b \<longrightarrow>
        (setTimeout H h now b t = Inl NegativeTimeout \<longleftrightarrow> num_lt_zero t))
   \<and> (TransactionBuilder_new h0 src opts = Inr (b, h) \<and> opts_timebounds opts = Some r
        \<and> get_object h0 r = Some tb \<and> js_gt_zero H h0 (maxTime tb)
        \<longrightarrow> setTimeout H h now b t = Inl TimeBoundsConflict)
   \<and> (setTimeout H h1 now1 b1 t1 = Inr (b, h) \<and> num_gt_zero t1
        \<and> num_gt_zero (js_add H (Fin (of_int (now1 div 1000))) t1)
        \<longrightarrow> setTimeout H h now b t = Inl TimeBoundsConflict)"
proof (intro conjI impI)
  show "setTimeout H h now b t = Inl TimeBoundsConflict \<longleftrightarrow> maxTime_set H h b"
    by (rule setTimeout_conflict_iff)
next
  assume "\<not> maxTime_set H h b"
  then show "setTimeout H h now b t = Inl NegativeTimeout \<longleftrightarrow> num_lt_zero t"
    by (rule setTimeout_negative_iff)
next
  assume a: "TransactionBuilder_new h0 src opts = Inr (b, h) \<and> opts_timebounds opts = Some r
      \<and> get_object h0 r = Some tb \<and> js_gt_zero H h0 (maxTime tb)"
  then have "timebounds b = Some (length (objects h0))" and h: "h = h0\<lparr>objects := objects h0 @ [tb]\<rparr>"
    using TransactionBuilder_new_copy [of h0 src opts b h r tb] by simp_all
  moreover have "get_object h (length (objects h0)) = Some tb"
    by (simp add: h get_object_def)
  moreover have "js_gt_zero H h (maxTime tb)"
    using a js_gt_zero_dates [of h h0 H "maxTime tb"] by (simp add: h)
  ultimately have "maxTime_set H h b"
    by (simp add: maxTime_set_def)
  then show "setTimeout H h now b t = Inl TimeBoundsConflict"
    by (simp add: setTimeout_conflict_iff)
next
  assume a: "setTimeout H h1 now1 b1 t1 = Inr (b, h) \<and> num_gt_zero t1
        \<and> num_gt_zero (js_add H (Fin (of_int (now1 div 1000))) t1)"
  then obtain tb where "timebounds b = Some (length (objects h1))"
    and "get_object h (length (objects h1)) = Some tb"
    and "maxTime tb = JNum (js_add H (Fin (of_int (now1 div 1000))) t1)"
    using setTimeout_positive [of H h1 now1 b1 t1 b h] by blast
  with a have "maxTime_set H h b"
    by (simp add: maxTime_set_def)
  then show "setTimeout H h now b t = Inl TimeBoundsConflict"
    by (simp add: setTimeout_conflict_iff)
qed

theorem setTimeout_errors_witness:
  "TransactionBuilder_new (ex_bounds_heap (JNum (Fin 1700000000))) (Some 0) (ex_opts (Some 0))
     = Inr (ex_new_builder (Some 1),
            (ex_bounds_heap (JNum (Fin 1700000000)))
              \<lparr>objects := [\<lparr>minTime = JNum (Fin 0), maxTime = JNum (Fin 1700000000)\<rparr>,
                           \<lparr>minTime = JNum (Fin 0), maxTime = JNum (Fin 1700000000)\<rparr>]\<rparr>)
   \<and> js_gt_zero ex_host (ex_bounds_heap (JNum (Fin 1700000000))) (JNum (Fin 1700000000))
   \<and> maxTime_set ex_host
        ((ex_bounds_heap (JNum (Fin 1700000000)))
              \<lparr>objects := [\<lparr>minTime = JNum (Fin 0), maxTime = JNum (Fin 1700000000)\<rparr>,
                           \<lparr>minTime = JNum (Fin 0), maxTime = JNum (Fin 1700000000)\<rparr>]\<rparr>)
        (ex_new_builder (Some 1))
   \<and> setTimeout ex_host
        ((ex_bounds_heap (JNum (Fin 1700000000)))
              \<lparr>objects := [\<lparr>minTime = JNum (Fin 0), maxTime = JNum (Fin 1700000000)\<rparr>,
                           \<lparr>minTime = JNum (Fin 0), maxTime = JNum (Fin 1700000000)\<rparr>]\<rparr>)
        1600000000000 (ex_new_builder (Some 1)) (Fin 30) = Inl TimeBoundsConflict
   \<and> setTimeout ex_host ex_heap 1600000000000 (ex_new_builder None) (Fin 30)
     = Inr ((ex_new_builder (Some 0))\<lparr>timeoutSet := True\<rparr>,
            ex_heap\<lparr>objects := [\<lparr>minTime = JNum (Fin 0), maxTime = JNum (Fin 1600000030)\<rparr>]\<rparr>)
   \<and> num_gt_zero (Fin 30)
   \<and> num_gt_zero (js_add ex_host (Fin (of_int (1600000000000 div 1000))) (Fin 30))
   \<and> setTimeout ex_host
        (ex_heap\<lparr>objects := [\<lparr>minTime = JNum (Fin 0), maxTime = JNum (Fin 1600000030)\<rparr>]\<rparr>)
        1600000001000 ((ex_new_builder (Some 0))\<lparr>timeoutSet := True\<rparr>) (Fin 0)
      = Inl TimeBoundsConflict
   \<and> \<not> maxTime_set ex_host ex_heap (ex_new_builder None)
   \<and> num_lt_zero (Fin (- 1))
   \<and> setTimeout ex_host ex_heap 1600000000000 (ex_new_builder None) (Fin (- 1))
      = Inl NegativeTimeout"
proof -
  let ?tb = "\<lparr>minTime = JNum (Fin 0), maxTime = JNum (Fin 1700000000)\<rparr>"
  let ?h = "ex_bounds_heap (JNum (Fin 1700000000))"
  let ?h1 = "?h\<lparr>objects := [?tb, ?tb]\<rparr>"
  let ?b1 = "ex_new_builder (Some 1) :: (string, unit) TransactionBuilder"
  let ?b0 = "ex_new_builder None :: (string, unit) TransactionBuilder"
  let ?h2 = "ex_heap\<lparr>objects := [\<lparr>minTime = JNum (Fin 0), maxTime = JNum (Fin 1600000030)\<rparr>]\<rparr>"
  let ?b2 = "(ex_new_builder (Some 0))\<lparr>timeoutSet := True\<rparr> :: (string, unit) TransactionBuilder"
  have new: "TransactionBuilder_new ?h (Some 0) (ex_opts (Some 0)) = Inr (?b1, ?h1)"
    by (simp add: TransactionBuilder_new_def clone_def get_object_def new_object_def
        ex_bounds_heap_def ex_opts_def ex_new_builder_def)
  have pre1: "opts_timebounds (ex_opts (Some 0)) = Some 0 \<and> get_object ?h 0 = Some ?tb
                \<and> js_gt_zero ex_host ?h (maxTime ?tb)"
    by (simp add: ex_opts_def get_object_def ex_bounds_heap_def)
  have first: "setTimeout ex_host ex_heap 1600000000000 ?b0 (Fin 30) = Inr (?b2, ?h2)"
    by (simp add: setTimeout_def maxTime_set_def new_object_def ex_new_builder_def ex_heap_def
        Let_def js_add_def safe_int_def)
  have pos: "num_gt_zero (Fin 30)
             \<and> num_gt_zero (js_add ex_host (Fin (of_int (1600000000000 div 1000))) (Fin 30))"
    by (simp add: js_add_def safe_int_def)
  have pre3: "\<not> maxTime_set ex_host ex_heap ?b0"
    by (simp add: maxTime_set_def ex_new_builder_def)
  have neg: "num_lt_zero (Fin (- 1))"
    by simp
  have c1: "setTimeout ex_host ?h1 1600000000000 ?b1 (Fin 30) = Inl TimeBoundsConflict"
    using new pre1
      setTimeout_errors [of ex_host ?h1 1600000000000 ?b1 "Fin 30" ?h "Some 0" "ex_opts (Some 0)"
        0 ?tb, THEN conjunct2, THEN conjunct2, THEN conjunct1]
    by blast
  then have set1: "maxTime_set ex_host ?h1 ?b1"
    using setTimeout_errors [of ex_host ?h1 1600000000000 ?b1 "Fin 30", THEN conjunct1]
    by blast
  have c2: "setTimeout ex_host ?h2 1600000001000 ?b2 (Fin 0) = Inl TimeBoundsConflict"
    using first pos
      setTimeout_errors [of ex_host ?h2 1600000001000 ?b2 "Fin 0" _ _ _ _ _
        ex_heap 1600000000000 ?b0 "Fin 30", THEN conjunct2, THEN conjunct2, THEN conjunct2]
    by blast
  have c3: "setTimeout ex_host ex_heap 1600000000000 ?b0 (Fin (- 1)) = Inl NegativeTimeout"
    using pre3 neg
      setTimeout_errors [of ex_host ex_heap 1600000000000 ?b0 "Fin (- 1)",
        THEN conjunct2, THEN conjunct1]
    by blast
  from pre1 have gt: "js_gt_zero ex_host ?h (JNum (Fin 1700000000))" by simp
  from new gt set1 c1 first pos c2 pre3 neg c3 show ?thesis
    by (intro conjI) simp_all
qed

theorem setTimeout_twice_counterexample:
  "setTimeout ex_host ex_heap 1600000000000 (ex_new_builder None) (Fin 0)
     = Inr ((ex_new_builder None)\<lparr>timeoutSet := True\<rparr>, ex_heap)
   \<and> setTimeout ex_host ex_heap 1600000000000 ((ex_new_builder None)\<lparr>timeoutSet := True\<rparr>) (Fin 0)
     = Inr ((ex_new_builder None)\<lparr>timeoutSet := True\<rparr>, ex_heap)"
  by (simp add: setTimeout_def maxTime_set_def ex_new_builder_def)

subsection \<open>The copy of the caller's time bounds\<close>

lemma get_object_set_object_other:
  "r' \<noteq> r \<Longrightarrow> get_object (set_object h r tb') r' = get_object h r'"
  by (simp add: get_object_def set_object_def)

lemma date_of_set_object: "date_of (set_object h r tb') v = date_of h v"
  by (cases v) (simp_all add: set_object_def)

lemma stored_timebounds_set_object_other:
  "timebounds b = Some r' \<Longrightarrow> r' \<noteq> r \<Longrightarrow>
     stored_timebounds (set_object h r tb') b = stored_timebounds h b"
  by (simp add: stored_timebounds_def get_object_set_object_other date_of_set_object
      split: option.splits)

lemma date_of_objects_update: "date_of (h\<lparr>objects := os\<rparr>) v = date_of h v"
  by (cases v) simp_all

text \<open>
  C8, as the code has it. The constructor stores a copy of the caller's time-bounds
  object that has the same property values: whatever the caller later assigns to the
  properties of their own object, the builder's stored time bounds stay as they were.
  The copy is one level deep; a \<open>Date\<close> that is a property value is the caller's
  \<open>Date\<close>.
\<close>

theorem constructor_copies_timebounds:
  assumes new: "TransactionBuilder_new h src opts = Inr (b, h1)"
    and opt: "opts_timebounds opts = Some r"
  shows "stored_timebounds (set_object h1 r tb') b = stored_timebounds h1 b
         \<and> (get_object h r = Some tb \<longrightarrow>
              stored_timebounds h1 b = Some (tb, date_of h (minTime tb), date_of h (maxTime tb)))"
proof (cases "get_object h r")
  case None
  from TransactionBuilder_new_no_object [OF new opt None]
  have "timebounds b = None" by simp
  with None show ?thesis
    by (simp add: stored_timebounds_def)
next
  case (Some tb0)
  from TransactionBuilder_new_copy [OF new opt Some]
  have ref: "timebounds b = Some (length (objects h))"
    and h1: "h1 = h\<lparr>objects := objects h @ [tb0]\<rparr>"
    by simp_all
  from Some have "r < length (objects h)"
    by (simp add: get_object_def split: if_splits)
  then have "length (objects h) \<noteq> r" by simp
  with ref have frame: "stored_timebounds (set_object h1 r tb') b = stored_timebounds h1 b"
    by (rule stored_timebounds_set_object_other)
  have "stored_timebounds h1 b = Some (tb0, date_of h (minTime tb0), date_of h (maxTime tb0))"
    by (simp add: stored_timebounds_def ref h1 get_object_def date_of_objects_update)
  with frame Some show ?thesis by simp
qed

theorem constructor_copies_timebounds_witness:
  "TransactionBuilder_new (ex_bounds_heap (JDate 0)) (Some 0) (ex_opts (Some 0))
     = Inr (ex_new_builder (Some 1),
            (ex_bounds_heap (JDate 0))
              \<lparr>objects := [\<lparr>minTime = JNum (Fin 0), maxTime = JDate 0\<rparr>,
                           \<lparr>minTime = JNum (Fin 0), maxTime = JDate 0\<rparr>]\<rparr>)
   \<and> opts_timebounds (ex_opts (Some 0)) = Some 0
   \<and> get_object (ex_bounds_heap (JDate 0)) 0 = Some \<lparr>minTime = JNum (Fin 0), maxTime = JDate 0\<rparr>
   \<and> stored_timebounds
        (set_object
           ((ex_bounds_heap (JDate 0))
              \<lparr>objects := [\<lparr>minTime = JNum (Fin 0), maxTime = JDate 0\<rparr>,
                           \<lparr>minTime = JNum (Fin 0), maxTime = JDate 0\<rparr>]\<rparr>)
           0 \<lparr>minTime = JNum (Fin 5), maxTime = JNum (Fin 6)\<rparr>)
        (ex_new_builder (Some 1))
      = Some (\<lparr>minTime = JNum (Fin 0), maxTime = JDate 0\<rparr>, None, Some (Some 1700000000000))"
proof -
  let ?tb = "\<lparr>minTime = JNum (Fin 0), maxTime = JDate 0\<rparr>"
  let ?h = "ex_bounds_heap (JDate 0)"
  let ?h1 = "?h\<lparr>objects := [?tb, ?tb]\<rparr>"
  have new: "TransactionBuilder_new ?h (Some 0) (ex_opts (Some 0)) = Inr (ex_new_builder (Some 1), ?h1)"
    by (simp add: TransactionBuilder_new_def clone_def get_object_def new_object_def
        ex_bounds_heap_def ex_opts_def ex_new_builder_def)
  have opt: "opts_timebounds (ex_opts (Some 0)) = Some 0"
    by (simp add: ex_opts_def)
  have obj: "get_object ?h 0 = Some ?tb"
    by (simp add: get_object_def ex_bounds_heap_def)
  have dates: "date_of ?h (minTime ?tb) = None \<and> date_of ?h (maxTime ?tb) = Some (Some 1700000000000)"
    by (simp add: ex_bounds_heap_def)
  from constructor_copies_timebounds [OF new opt, of "\<lparr>minTime = JNum (Fin 5), maxTime = JNum (Fin 6)\<rparr>" ?tb]
  have "stored_timebounds (set_object ?h1 0 \<lparr>minTime = JNum (Fin 5), maxTime = JNum (Fin 6)\<rparr>)
          (ex_new_builder (Some 1))
        = Some (?tb, None, Some (Some 1700000000000))"
    using obj dates by simp
  with new opt obj show ?thesis by (intro conjI)
qed

theorem nested_Date_shared_counterexample:
  "TransactionBuilder_new (ex_bounds_heap (JDate 0)) (Some 0) (ex_opts (Some 0))
     = Inr (ex_new_builder (Some 1),
            (ex_bounds_heap (JDate 0))
              \<lparr>objects := [\<lparr>minTime = JNum (Fin 0), maxTime = JDate 0\<rparr>,
                           \<lparr>minTime = JNum (Fin 0), maxTime = JDate 0\<rparr>]\<rparr>)
   \<and> stored_timebounds
        ((ex_bounds_heap (JDate 0))
           \<lparr>objects := [\<lparr>minTime = JNum (Fin 0), maxTime = JDate 0\<rparr>,
                        \<lparr>minTime = JNum (Fin 0), maxTime = JDate 0\<rparr>]\<rparr>)
        (ex_new_builder (Some 1))
      = Some (\<lparr>minTime = JNum (Fin 0), maxTime = JDate 0\<rparr>, None, Some (Some 1700000000000))
   \<and> stored_timebounds
        (Date_setTime
           ((ex_bounds_heap (JDate 0))
              \<lparr>objects := [\<lparr>minTime = JNum (Fin 0), maxTime = JDate 0\<rparr>,
                           \<lparr>minTime = JNum (Fin 0), maxTime = JDate 0\<rparr>]\<rparr>)
           0 (Some 0))
        (ex_new_builder (Some 1))
      = Some (\<lparr>minTime = JNum (Fin 0), maxTime = JDate 0\<rparr>, None, Some (Some 0))
   \<and> maxTime_set ex_host
        ((ex_bounds_heap (JDate 0))
           \<lparr>objects := [\<lparr>minTime = JNum (Fin 0), maxTime = JDate 0\<rparr>,
                        \<lparr>minTime = JNum (Fin 0), maxTime = JDate 0\<rparr>]\<rparr>)
        (ex_new_builder (Some 1))
   \<and> \<not> maxTime_set ex_host
        (Date_setTime
           ((ex_bounds_heap (JDate 0))
              \<lparr>objects := [\<lparr>minTime = JNum (Fin 0), maxTime = JDate 0\<rparr>,
                           \<lparr>minTime = JNum (Fin 0), maxTime = JDate 0\<rparr>]\<rparr>)
           0 (Some 0))
        (ex_new_builder (Some 1))"
  by (simp add: TransactionBuilder_new_def clone_def get_object_def new_object_def
      ex_bounds_heap_def ex_opts_def ex_new_builder_def stored_timebounds_def Date_setTime_def
      maxTime_set_def)

end
